theory Spec2Isabelle
  imports Complex_Main
begin

section \<open>JavaScript values held in record fields\<close>

text \<open>
  Training records, roster entries and planned sessions are plain JavaScript objects whose
  properties are read by name. Every value that reaches them is the text of a form
  control, a cell of a parsed CSV file, or such a value after a JSON round trip through
  localStorage; a property that is absent reads as \<open>undefined\<close>. A field is therefore a
  string, \<open>undefined\<close> or \<open>null\<close>. On these values \<open>===\<close> and the equality of a
  \<open>Set\<close> are both HOL equality.
\<close>

datatype jsval = JUndefined | JNull | JStr string

text \<open>Truthiness (\<open>!v\<close>, \<open>v || d\<close>, \<open>v && w\<close>, \<open>v ? a : b\<close>).\<close>

fun truthy :: "jsval \<Rightarrow> bool" where
  "truthy JUndefined = False"
| "truthy JNull = False"
| "truthy (JStr s) = (s \<noteq> [])"

text \<open>\<open>String(v)\<close> and the interpolation \<open>${v}\<close> of a template literal.\<close>

fun toStr :: "jsval \<Rightarrow> string" where
  "toStr JUndefined = ''undefined''"
| "toStr JNull = ''null''"
| "toStr (JStr s) = s"

text \<open>\<open>v || d\<close> for a default \<open>d\<close>.\<close>

definition orElse :: "jsval \<Rightarrow> jsval \<Rightarrow> jsval" where
  "orElse v d = (if truthy v then v else d)"

datatype js_error = TypeError

text \<open>
  A reference that may be \<open>null\<close>, \<open>undefined\<close> or an object: what
  \<open>getEmployeeById\<close> hands back.
\<close>

datatype 'a jsref = RNull | RUndefined | RObject 'a

subsection \<open>Strings\<close>

text \<open>
  \<open>String.prototype.trim\<close> removes white space from both ends. Strings are lists of
  8-bit characters here, so the white space is the ASCII part of the ECMAScript set:
  tab, line feed, vertical tab, form feed, carriage return and space.
\<close>

definition isWhiteSpace :: "char \<Rightarrow> bool" where
  "isWhiteSpace c = (c \<in> set [CHR 0x09, CHR 0x0A, CHR 0x0B, CHR 0x0C, CHR 0x0D, CHR '' ''])"

definition trim :: "string \<Rightarrow> string" where
  "trim s = rev (dropWhile isWhiteSpace (rev (dropWhile isWhiteSpace s)))"

text \<open>\<open>s.replace(/-/g, '/')\<close>.\<close>

definition replaceDashes :: "string \<Rightarrow> string" where
  "replaceDashes s = map (\<lambda>c. if c = CHR ''-'' then CHR ''/'' else c) s"

text \<open>Decimal text of an integer, as \<open>${n}\<close> prints a whole number.\<close>

definition digitChar :: "nat \<Rightarrow> char" where
  "digitChar n = ''0123456789'' ! n"

fun showNat :: "nat \<Rightarrow> string" where
  "showNat n = (if n < 10 then [digitChar n] else showNat (n div 10) @ [digitChar (n mod 10)])"

declare showNat.simps [simp del]

definition showInt :: "int \<Rightarrow> string" where
  "showInt i = (if i < 0 then CHR ''-'' # showNat (nat (- i)) else showNat (nat i))"

section \<open>Dates and the platform\<close>

text \<open>
  A \<open>Date\<close> object is either the invalid date or a local calendar date, read through
  \<open>getFullYear()\<close>, \<open>getMonth()\<close> (0 is January) and \<open>getDate()\<close> (the day of the
  month).
\<close>

datatype jsdate = InvalidDate | Date (getFullYear: int) (getMonth: nat) (getDate: nat)

subsection \<open>Constants (js/config/constants.js)\<close>

definition MONTH_ORDER :: "string list" where
  "MONTH_ORDER = [''January'', ''February'', ''March'', ''April'', ''May'', ''June'',
                  ''July'', ''August'', ''September'', ''October'', ''November'', ''December'']"

definition FISCAL_MONTHS :: "string list" where
  "FISCAL_MONTHS = [''July'', ''August'', ''September'', ''October'', ''November'', ''December'',
                    ''January'', ''February'', ''March'', ''April'', ''May'', ''June'']"

definition TRAINING_DATA :: string where
  "TRAINING_DATA = ''trainingData''"

definition PLANNED_SESSIONS :: string where
  "PLANNED_SESSIONS = ''plannedSessions''"

subsection \<open>getFiscalYear (utils/helpers.js)\<close>

text \<open>The argument of \<open>getFiscalYear\<close>: a \<open>Date\<close> object or anything else.\<close>

datatype fyarg = NotADate jsval | DateObject jsdate

definition getFiscalYear :: "fyarg \<Rightarrow> string" where
  "getFiscalYear date =
     (case date of
        NotADate v \<Rightarrow> []
      | DateObject InvalidDate \<Rightarrow> []
      | DateObject (Date year month day) \<Rightarrow>
          (let fiscalYear = (if month \<ge> 6 then year else year - 1)
           in ''FY '' @ showInt fiscalYear))"

section \<open>The data service (services/dataService.js)\<close>

record employee =
  Matricule :: jsval
  empFullName :: jsval
  empGender :: jsval
  PROJET :: jsval
  empCostCenter :: jsval

record training_record =
  Id' :: jsval
  TrainingDate :: jsval
  TraineeId :: jsval
  TrainingType :: jsval
  Process :: jsval
  RefreshmentType :: jsval
  TrainingHours :: jsval
  Sector :: jsval
  Trainer :: jsval
  FullName :: jsval
  Gender :: jsval
  Project :: jsval
  CostCenter :: jsval
  Month :: jsval
  Week :: jsval

record planned_session =
  planId :: jsval
  plannedDate :: jsval
  planTrainer :: jsval
  trainees :: "jsval list option"
  trainingType :: jsval
  planProcess :: jsval
  planRefreshmentType :: jsval
  estimatedHours :: jsval
  planSector :: jsval
  planStatus :: jsval
  planMonth :: jsval

text \<open>
  What a localStorage key holds: \<open>JSON.stringify\<close> of one of the two collections.
  \<open>JSON.stringify\<close> leaves out properties that are \<open>undefined\<close> and \<open>JSON.parse\<close>
  reads them back as absent, so the array itself stands for its JSON text.
\<close>

datatype stored = TrainingJSON "training_record list" | PlansJSON "planned_session list"

text \<open>
  What the browser decides and the repository does not: how \<open>new Date(string)\<close> reads
  a string, the long month names of the default locale, and whether
  \<open>localStorage.setItem\<close> accepts a write (it throws when the quota is exceeded).
\<close>

record platform =
  dateParse :: "string \<Rightarrow> jsdate"
  monthLong :: "nat \<Rightarrow> string"
  setItemOk :: "string \<Rightarrow> stored \<Rightarrow> bool"

text \<open>\<open>date.toLocaleString('default', { month: 'long' })\<close>.\<close>

definition toLocaleMonth :: "platform \<Rightarrow> jsdate \<Rightarrow> string" where
  "toLocaleMonth pf date = (case date of InvalidDate \<Rightarrow> ''Invalid Date'' | Date y m d \<Rightarrow> monthLong pf m)"

record data_service =
  orgaData :: "employee list"
  trainingData :: "training_record list"
  plannedSessions :: "planned_session list"
  currentUser :: string
  localStorage :: "string \<Rightarrow> stored option"
  setItemCalls :: nat

text \<open>
  \<open>StorageService.save\<close>: \<open>setItem\<close> inside \<open>try\<close>; a failure is logged and the
  entry keeps its old value. \<open>setItemCalls\<close> counts the calls of \<open>setItem\<close>.
\<close>

definition save :: "platform \<Rightarrow> string \<Rightarrow> stored \<Rightarrow> data_service \<Rightarrow> data_service" where
  "save pf key data st =
     (if setItemOk pf key data
      then st\<lparr>localStorage := (localStorage st)(key := Some data), setItemCalls := setItemCalls st + 1\<rparr>
      else st\<lparr>setItemCalls := setItemCalls st + 1\<rparr>)"

definition saveToLocalStorage :: "platform \<Rightarrow> data_service \<Rightarrow> data_service" where
  "saveToLocalStorage pf st =
     (let st1 = save pf TRAINING_DATA (TrainingJSON (trainingData st)) st
      in save pf PLANNED_SESSIONS (PlansJSON (plannedSessions st1)) st1)"

definition getEmployeeById :: "employee list \<Rightarrow> jsval \<Rightarrow> employee jsref" where
  "getEmployeeById orga ident =
     (if \<not> truthy ident then RNull
      else
        (let normalizedId = trim (toStr ident)
         in case find (\<lambda>emp. truthy (Matricule emp) \<and> trim (toStr (Matricule emp)) = normalizedId) orga of
              None \<Rightarrow> RUndefined
            | Some emp \<Rightarrow> RObject emp))"

definition getRecordById :: "data_service \<Rightarrow> jsval \<Rightarrow> training_record option" where
  "getRecordById st ident = find (\<lambda>record. Id' record = ident) (trainingData st)"

text \<open>\<open>employee ? employee[field] : 'Unknown'\<close>: an object is truthy, \<open>null\<close> and
  \<open>undefined\<close> are not.\<close>

definition fieldOrUnknown :: "employee jsref \<Rightarrow> (employee \<Rightarrow> jsval) \<Rightarrow> jsval" where
  "fieldOrUnknown employee field =
     (case employee of RObject emp \<Rightarrow> field emp | RNull \<Rightarrow> JStr ''Unknown'' | RUndefined \<Rightarrow> JStr ''Unknown'')"

text \<open>\<open>Week ${Math.ceil(dayOfMonth / 7)}\<close>; \<open>getDate()\<close> of the invalid date is
  \<open>NaN\<close>, and so is its quotient and ceiling. The quotient is taken exactly: for a whole
  number that is not a multiple of 7 the double nearest to the quotient lies strictly
  between the same two integers, and a multiple of 7 divides without rounding.\<close>

definition weekLabel :: "jsdate \<Rightarrow> string" where
  "weekLabel date =
     (case date of
        InvalidDate \<Rightarrow> ''Week NaN''
      | Date y m dayOfMonth \<Rightarrow> ''Week '' @ showInt \<lceil>real dayOfMonth / 7\<rceil>)"

text \<open>
  \<open>_enrichRecord\<close>. The four roster fields are written first; then
  \<open>record['Training Date'].replace\<close> is called, which throws a \<open>TypeError\<close> unless the
  value is a string.
\<close>

definition enrichRecord :: "platform \<Rightarrow> employee list \<Rightarrow> training_record \<Rightarrow> js_error + training_record" where
  "enrichRecord pf orga record =
     (let employee = getEmployeeById orga (TraineeId record);
          record1 = record\<lparr>FullName := fieldOrUnknown employee empFullName,
                           Gender := fieldOrUnknown employee empGender,
                           Project := fieldOrUnknown employee PROJET,
                           CostCenter := fieldOrUnknown employee empCostCenter\<rparr>
      in case TrainingDate record1 of
           JStr s \<Rightarrow>
             (let date = dateParse pf (replaceDashes s)
              in Inr (record1\<lparr>Month := JStr (toLocaleMonth pf date), Week := JStr (weekLabel date)\<rparr>))
         | JUndefined \<Rightarrow> Inl TypeError
         | JNull \<Rightarrow> Inl TypeError)"

text \<open>\<open>findIndex\<close>: the first position whose element satisfies the test, \<open>None\<close> for -1.\<close>

fun findIndex :: "('a \<Rightarrow> bool) \<Rightarrow> 'a list \<Rightarrow> nat option" where
  "findIndex P [] = None"
| "findIndex P (x # xs) = (if P x then Some 0 else map_option Suc (findIndex P xs))"

text \<open>
  \<open>addRecord\<close>. The identifier \<open>String(Date.now()) + Math.random()\<close> is an input
  of the model. A throw inside enrichment leaves the service as it was.
\<close>

definition addRecord :: "platform \<Rightarrow> string \<Rightarrow> training_record \<Rightarrow> data_service \<Rightarrow> (js_error + unit) \<times> data_service" where
  "addRecord pf freshId record st =
     (let record1 = record\<lparr>Id' := JStr freshId\<rparr>;
          record2 = record1\<lparr>Trainer := orElse (Trainer record1) (JStr (currentUser st))\<rparr>
      in case enrichRecord pf (orgaData st) record2 of
           Inl e \<Rightarrow> (Inl e, st)
         | Inr enrichedRecord \<Rightarrow>
             (Inr (), saveToLocalStorage pf (st\<lparr>trainingData := enrichedRecord # trainingData st\<rparr>)))"

definition updateRecord :: "platform \<Rightarrow> training_record \<Rightarrow> data_service \<Rightarrow> (js_error + unit) \<times> data_service" where
  "updateRecord pf updatedRecord st =
     (case findIndex (\<lambda>record. Id' record = Id' updatedRecord) (trainingData st) of
        None \<Rightarrow> (Inr (), st)
      | Some index \<Rightarrow>
          (let updatedRecord1 = updatedRecord\<lparr>Trainer := Trainer (trainingData st ! index)\<rparr>
           in case enrichRecord pf (orgaData st) updatedRecord1 of
                Inl e \<Rightarrow> (Inl e, st)
              | Inr enrichedRecord \<Rightarrow>
                  (Inr (), saveToLocalStorage pf
                     (st\<lparr>trainingData := (trainingData st)[index := enrichedRecord]\<rparr>))))"

text \<open>An \<open>Array.prototype.map\<close> whose callback may throw: the first throw ends it, and
  the callback also sees the index.\<close>

fun mapE :: "(nat \<Rightarrow> 'a \<Rightarrow> js_error + 'b) \<Rightarrow> nat \<Rightarrow> 'a list \<Rightarrow> js_error + 'b list" where
  "mapE f i [] = Inr []"
| "mapE f i (x # xs) =
     (case f i x of
        Inl e \<Rightarrow> Inl e
      | Inr y \<Rightarrow> (case mapE f (Suc i) xs of Inl e \<Rightarrow> Inl e | Inr ys \<Rightarrow> Inr (y # ys)))"

text \<open>
  \<open>importData\<close>, called with the rows of a parsed CSV file. \<open>freshId i\<close> is the
  identifier generated for the row at position \<open>i\<close> should it have none. The
  assignment to \<open>this.trainingData\<close> happens after \<open>map\<close> has returned, so a throw
  leaves the service as it was.
\<close>

definition importData :: "platform \<Rightarrow> (nat \<Rightarrow> string) \<Rightarrow> training_record list \<Rightarrow> data_service
    \<Rightarrow> (js_error + unit) \<times> data_service" where
  "importData pf freshId newData st =
     (case mapE (\<lambda>i record.
              (let record1 = record\<lparr>Trainer := JStr (currentUser st)\<rparr>;
                   record2 = (if \<not> truthy (Id' record1) then record1\<lparr>Id' := JStr (freshId i)\<rparr> else record1)
               in enrichRecord pf (orgaData st) record2)) 0 newData of
        Inl e \<Rightarrow> (Inl e, st)
      | Inr enriched \<Rightarrow> (Inr (), saveToLocalStorage pf (st\<lparr>trainingData := enriched\<rparr>)))"

section \<open>Numbers\<close>

text \<open>
  Hours are JavaScript numbers (IEEE doubles). Their arithmetic is the browser's, so the
  aggregations take it as a parameter: zero, \<open>+\<close>, \<open>/\<close>, the number a counter holds,
  \<open>parseFloat\<close>, truthiness of a number (neither \<open>NaN\<close> nor zero) and \<open>toFixed(2)\<close>.
  Nothing is assumed about them; in particular \<open>ndiv\<close> by zero is whatever the platform
  makes it. Counters (\<open>c++\<close>, \<open>sessions += 1\<close>, \<open>length\<close>) are natural numbers.
\<close>

record 'n numops =
  nzero :: 'n
  nadd :: "'n \<Rightarrow> 'n \<Rightarrow> 'n"
  ndiv :: "'n \<Rightarrow> 'n \<Rightarrow> 'n"
  ofCount :: "nat \<Rightarrow> 'n"
  parseFloat :: "jsval \<Rightarrow> 'n"
  numTruthy :: "'n \<Rightarrow> bool"
  toFixed2 :: "'n \<Rightarrow> string"

text \<open>\<open>parseFloat(r['Number of Training Hours']) || 0\<close>.\<close>

definition hoursOf :: "'n numops \<Rightarrow> training_record \<Rightarrow> 'n" where
  "hoursOf ops r = (let x = parseFloat ops (TrainingHours r) in if numTruthy ops x then x else nzero ops)"

section \<open>Yearly report (components/yearlyReport.js)\<close>

text \<open>A \<open>Set\<close> keeps its elements in insertion order, each once.\<close>

definition setAdd :: "'a \<Rightarrow> 'a list \<Rightarrow> 'a list" where
  "setAdd x s = (if x \<in> set s then s else s @ [x])"

record 'n month_bucket =
  operatorsQual :: "jsval list"
  operatorsRefresh :: "jsval list"
  hoursQual :: 'n
  hoursRefresh :: 'n
  qualifRealised :: nat
  refreshRealised :: nat
  qualifPlanned :: nat
  refreshPlanned :: nat

definition emptyBucket :: "'n numops \<Rightarrow> 'n month_bucket" where
  "emptyBucket ops =
     \<lparr>operatorsQual = [], operatorsRefresh = [], hoursQual = nzero ops, hoursRefresh = nzero ops,
      qualifRealised = 0, refreshRealised = 0, qualifPlanned = 0, refreshPlanned = 0\<rparr>"

text \<open>
  \<open>monthlyData\<close> is an object literal, so \<open>monthlyData[month]\<close> also finds what every
  object inherits from \<open>Object.prototype\<close>. Such a value is truthy but has no
  \<open>operatorsQual\<close>, and calling \<open>add\<close> on it throws.
\<close>

definition inheritedKeys :: "string list" where
  "inheritedKeys = [''constructor'', ''__defineGetter__'', ''__defineSetter__'', ''hasOwnProperty'',
                    ''__lookupGetter__'', ''__lookupSetter__'', ''isPrototypeOf'',
                    ''propertyIsEnumerable'', ''toString'', ''valueOf'', ''__proto__'',
                    ''toLocaleString'']"

text \<open>A \<open>forEach\<close> whose body may throw: the first throw ends the loop.\<close>

fun forEachE :: "('s \<Rightarrow> 'a \<Rightarrow> js_error + 's) \<Rightarrow> 'a list \<Rightarrow> 's \<Rightarrow> js_error + 's" where
  "forEachE f [] s = Inr s"
| "forEachE f (x # xs) s = (case f s x of Inl e \<Rightarrow> Inl e | Inr s' \<Rightarrow> forEachE f xs s')"

definition isQualOrRefresh :: "jsval \<Rightarrow> bool" where
  "isQualOrRefresh v = (v = JStr ''Qualification'' \<or> v = JStr ''Refreshment'')"

text \<open>The body of \<open>yearlyPlannedSessions.forEach\<close>. \<open>p.plannedDate.replace\<close> throws
  unless the date is a string, \<open>p.trainees.length\<close> throws when there is no list.\<close>

definition planStep :: "platform \<Rightarrow> (string \<Rightarrow> 'n month_bucket option) \<Rightarrow> planned_session
    \<Rightarrow> js_error + (string \<Rightarrow> 'n month_bucket option)" where
  "planStep pf monthlyData p =
     (case plannedDate p of
        JStr s \<Rightarrow>
          (let month = toLocaleMonth pf (dateParse pf (replaceDashes s))
           in case monthlyData month of
                Some b \<Rightarrow>
                  (if trainingType p = JStr ''Qualification'' then
                     (case trainees p of
                        None \<Rightarrow> Inl TypeError
                      | Some ts \<Rightarrow> Inr (monthlyData(month := Some (b\<lparr>qualifPlanned := qualifPlanned b + length ts\<rparr>))))
                   else if trainingType p = JStr ''Refreshment'' then
                     (case trainees p of
                        None \<Rightarrow> Inl TypeError
                      | Some ts \<Rightarrow> Inr (monthlyData(month := Some (b\<lparr>refreshPlanned := refreshPlanned b + length ts\<rparr>))))
                   else Inr monthlyData)
              | None \<Rightarrow>
                  (if month \<in> set inheritedKeys \<and> isQualOrRefresh (trainingType p) \<and> trainees p = None
                   then Inl TypeError else Inr monthlyData))
      | JUndefined \<Rightarrow> Inl TypeError
      | JNull \<Rightarrow> Inl TypeError)"

text \<open>The body of \<open>yearlyRecords.forEach\<close>.\<close>

definition recordStep :: "'n numops \<Rightarrow> (string \<Rightarrow> 'n month_bucket option) \<Rightarrow> training_record
    \<Rightarrow> js_error + (string \<Rightarrow> 'n month_bucket option)" where
  "recordStep ops monthlyData r =
     (let month = toStr (Month r)
      in case monthlyData month of
           Some b \<Rightarrow>
             (let hours = hoursOf ops r;
                  traineeId = TraineeId r
              in if TrainingType r = JStr ''Qualification'' then
                   Inr (monthlyData(month := Some (b\<lparr>operatorsQual := setAdd traineeId (operatorsQual b),
                                                        hoursQual := nadd ops (hoursQual b) hours,
                                                        qualifRealised := qualifRealised b + 1\<rparr>)))
                 else if TrainingType r = JStr ''Refreshment'' then
                   Inr (monthlyData(month := Some (b\<lparr>operatorsRefresh := setAdd traineeId (operatorsRefresh b),
                                                        hoursRefresh := nadd ops (hoursRefresh b) hours,
                                                        refreshRealised := refreshRealised b + 1\<rparr>)))
                 else Inr monthlyData)
         | None \<Rightarrow>
             (if month \<in> set inheritedKeys \<and> isQualOrRefresh (TrainingType r)
              then Inl TypeError else Inr monthlyData))"

definition initialMonthlyData :: "'n numops \<Rightarrow> string \<Rightarrow> 'n month_bucket option" where
  "initialMonthlyData ops = map_of (map (\<lambda>month. (month, emptyBucket ops)) FISCAL_MONTHS)"

definition calculateMonthlyData :: "'n numops \<Rightarrow> platform \<Rightarrow> training_record list \<Rightarrow> planned_session list
    \<Rightarrow> js_error + (string \<Rightarrow> 'n month_bucket option)" where
  "calculateMonthlyData ops pf yearlyRecords yearlyPlannedSessions =
     (case forEachE (planStep pf) yearlyPlannedSessions (initialMonthlyData ops) of
        Inl e \<Rightarrow> Inl e
      | Inr monthlyData \<Rightarrow> forEachE (recordStep ops) yearlyRecords monthlyData)"

text \<open>The records of one month whose training type is Qualification: the rows that
  \<open>qualifRealised\<close> counts and whose trainees \<open>operatorsQual\<close> collects.\<close>

definition qualificationRows :: "string \<Rightarrow> training_record list \<Rightarrow> training_record list" where
  "qualificationRows month records =
     filter (\<lambda>r. toStr (Month r) = month \<and> TrainingType r = JStr ''Qualification'') records"

section \<open>Detailed analysis (components/analysis.js)\<close>

text \<open>
  The accumulators below are object literals indexed by strings computed from record
  fields. They are modelled by their own properties: a field value that is the name of
  a member every object inherits (for instance \<open>constructor\<close>) is outside the model.
  Keys of the form \<open>bucket-sector\<close> contain a dash and name no inherited member.
\<close>

record 'n gender_row =
  Male :: 'n
  Female :: 'n
  label :: string

text \<open>The reducer shared by \<open>renderWeeklyHoursByGenderChart\<close> (bucket \<open>r.Week\<close>) and
  \<open>renderMonthlyHoursByGenderChart\<close> (bucket \<open>r.Month\<close>); the accumulator keeps its
  keys in insertion order.\<close>

definition hoursByGenderStep :: "'n numops \<Rightarrow> (training_record \<Rightarrow> jsval) \<Rightarrow> (string \<times> 'n gender_row) list
    \<Rightarrow> training_record \<Rightarrow> (string \<times> 'n gender_row) list" where
  "hoursByGenderStep ops bucket acc r =
     (let key = toStr (bucket r) @ ''-'' @ toStr (Sector r);
          acc1 = (if map_of acc key = None
                  then acc @ [(key, \<lparr>Male = nzero ops, Female = nzero ops, label = key\<rparr>)] else acc)
      in if Gender r = JStr ''Male'' then
           map (\<lambda>(k, row). if k = key then (k, row\<lparr>Male := nadd ops (Male row) (hoursOf ops r)\<rparr>) else (k, row)) acc1
         else if Gender r = JStr ''Female'' then
           map (\<lambda>(k, row). if k = key then (k, row\<lparr>Female := nadd ops (Female row) (hoursOf ops r)\<rparr>) else (k, row)) acc1
         else acc1)"

text \<open>The \<open>data\<close> of \<open>renderWeeklyHoursByGenderChart\<close>, as \<open>Object.values\<close> lists it
  before the rows are sorted by label.\<close>

definition weeklyHoursByGender :: "'n numops \<Rightarrow> training_record list \<Rightarrow> 'n gender_row list" where
  "weeklyHoursByGender ops records = map snd (foldl (hoursByGenderStep ops Week) [] records)"

definition monthlyHoursByGender :: "'n numops \<Rightarrow> training_record list \<Rightarrow> 'n gender_row list" where
  "monthlyHoursByGender ops records = map snd (foldl (hoursByGenderStep ops Month) [] records)"

text \<open>\<open>renderSessionsByAreaChart\<close>: \<open>acc[sector] = (acc[sector] || 0) + 1\<close> with
  \<open>sector = r.Sector || 'Unknown'\<close>.\<close>

definition sessionsByAreaStep :: "(string \<Rightarrow> nat option) \<Rightarrow> training_record \<Rightarrow> (string \<Rightarrow> nat option)" where
  "sessionsByAreaStep acc r =
     (let sector = toStr (orElse (Sector r) (JStr ''Unknown''))
      in acc(sector := Some ((case acc sector of None \<Rightarrow> 0 | Some n \<Rightarrow> n) + 1)))"

definition sessionsByArea :: "training_record list \<Rightarrow> (string \<Rightarrow> nat option)" where
  "sessionsByArea records = foldl sessionsByAreaStep (\<lambda>k. None) records"








section \<open>Trainer performance (components/performance.js)\<close>

record 'n trainer_stats =
  hours :: 'n
  sessions :: nat







section \<open>A concrete browser and concrete data\<close>

text \<open>
  One admissible platform, used where a statement is evaluated on concrete input: dates
  are read from \<open>year/month/day\<close> in digits (anything else is the invalid date), month
  names are English, and every \<open>setItem\<close> succeeds. The numbers are exact reals, with
  \<open>parseFloat\<close> reading unsigned whole numbers and giving 0 (what \<open>|| 0\<close> makes
  of \<open>NaN\<close>) for anything else.
\<close>

definition digitVal :: "char \<Rightarrow> nat option" where
  "digitVal c = (let n = (of_char c :: nat) in if 48 \<le> n \<and> n \<le> 57 then Some (n - 48) else None)"

fun parseDigits :: "nat \<Rightarrow> string \<Rightarrow> nat option" where
  "parseDigits acc [] = Some acc"
| "parseDigits acc (c # cs) = (case digitVal c of None \<Rightarrow> None | Some d \<Rightarrow> parseDigits (10 * acc + d) cs)"

definition parseNat :: "string \<Rightarrow> nat option" where
  "parseNat s = (if s = [] then None else parseDigits 0 s)"

fun splitSlash :: "string \<Rightarrow> string list" where
  "splitSlash [] = [[]]"
| "splitSlash (c # cs) =
     (if c = CHR ''/'' then [] # splitSlash cs
      else (case splitSlash cs of [] \<Rightarrow> [[c]] | w # ws \<Rightarrow> (c # w) # ws))"

definition ymdParse :: "string \<Rightarrow> jsdate" where
  "ymdParse s =
     (case map parseNat (splitSlash s) of
        [Some y, Some m, Some d] \<Rightarrow>
          (if 1 \<le> m \<and> m \<le> 12 \<and> 1 \<le> d \<and> d \<le> 31 then Date (int y) (m - 1) d else InvalidDate)
      | _ \<Rightarrow> InvalidDate)"

definition refPlatform :: platform where
  "refPlatform = \<lparr>dateParse = ymdParse, monthLong = (\<lambda>m. MONTH_ORDER ! m), setItemOk = (\<lambda>key data. True)\<rparr>"

definition idealToFixed2 :: "real \<Rightarrow> string" where
  "idealToFixed2 x =
     (let n = \<lfloor>x * 100 + 1 / 2\<rfloor>
      in showInt (n div 100) @ ''.'' @ [digitChar (nat (n mod 100 div 10)), digitChar (nat (n mod 10))])"

definition idealOps :: "real numops" where
  "idealOps =
     \<lparr>nzero = 0, nadd = (+), ndiv = (/), ofCount = real,
      parseFloat = (\<lambda>v. case v of JStr s \<Rightarrow> (case parseNat s of Some n \<Rightarrow> real n | None \<Rightarrow> 0) | JUndefined \<Rightarrow> 0 | JNull \<Rightarrow> 0),
      numTruthy = (\<lambda>x. x \<noteq> 0),
      toFixed2 = idealToFixed2\<rparr>"

definition sampleRecord :: training_record where
  "sampleRecord =
     \<lparr>Id' = JStr ''r1'', TrainingDate = JStr ''2024-07-08'', TraineeId = JStr ''1001'',
      TrainingType = JStr ''Qualification'', Process = JStr ''Welding'', RefreshmentType = JStr [],
      TrainingHours = JStr ''3'', Sector = JStr ''A'', Trainer = JStr ''Alice'',
      FullName = JStr ''Sara Idrissi'', Gender = JStr ''Female'', Project = JStr ''P1'',
      CostCenter = JStr ''CC1'', Month = JStr ''July'', Week = JStr ''Week 2''\<rparr>"

definition sampleEmployee :: employee where
  "sampleEmployee =
     \<lparr>Matricule = JStr '' 1001 '', empFullName = JStr ''Sara Idrissi'', empGender = JStr ''Female'',
      PROJET = JStr ''P1'', empCostCenter = JStr ''CC1''\<rparr>"

definition samplePlan :: planned_session where
  "samplePlan =
     \<lparr>planId = JStr ''p1'', plannedDate = JStr ''2024-07-15'', planTrainer = JStr ''Alice'',
      trainees = Some [JStr ''1001'', JStr ''1002''], trainingType = JStr ''Qualification'',
      planProcess = JStr ''Welding'', planRefreshmentType = JStr [], estimatedHours = JStr ''4'',
      planSector = JStr ''A'', planStatus = JStr ''Planned'', planMonth = JStr ''July''\<rparr>"

definition sampleService :: data_service where
  "sampleService =
     \<lparr>orgaData = [sampleEmployee],
      trainingData = [sampleRecord\<lparr>Id' := JStr ''r0'', Trainer := JStr ''Carol''\<rparr>, sampleRecord],
      plannedSessions = [],
      currentUser = ''Alice'',
      localStorage = (\<lambda>key. None),
      setItemCalls = 0\<rparr>"

section \<open>Fiscal year and week label\<close>

text \<open>
  C2. For every calendar date the fiscal-year label is \<open>FY\<close> followed by the calendar
  year when the month is July (index 6) or later, and by the year before otherwise;
  30 June 2024 gives \<open>FY 2023\<close> and 1 July 2024 gives \<open>FY 2024\<close>.
\<close>

theorem getFiscalYear_label:
  "getFiscalYear (DateObject (Date year month day))
     = ''FY '' @ showInt (if 6 \<le> month then year else year - 1)
   \<and> getFiscalYear (DateObject (Date 2024 5 30)) = ''FY 2023''
   \<and> getFiscalYear (DateObject (Date 2024 6 1)) = ''FY 2024''"
proof -
  have "getFiscalYear (DateObject (Date 2024 5 30)) = ''FY 2023''"
    "getFiscalYear (DateObject (Date 2024 6 1)) = ''FY 2024''"
    by (simp_all add: getFiscalYear_def showInt_def showNat.simps digitChar_def)
  then show ?thesis by (simp add: getFiscalYear_def)
qed

lemma ceiling_day_of_month: "\<lceil>real d / 7\<rceil> = (int d + 6) div 7"
proof -
  have "\<lceil>real d / 7\<rceil> = \<lceil>(of_int (int d) :: real) / of_int 7\<rceil>" by simp
  also have "\<dots> = - (- int d div 7)" by (rule ceiling_divide_eq_div)
  also have "\<dots> = (int d + 6) div 7" by presburger
  finally show ?thesis .
qed

lemma weekLabel_examples:
  "weekLabel (Date y m 1) = ''Week 1''" "weekLabel (Date y m 7) = ''Week 1''"
  "weekLabel (Date y m 8) = ''Week 2''" "weekLabel (Date y m 31) = ''Week 5''"
  by (simp_all add: weekLabel_def ceiling_day_of_month showInt_def showNat.simps digitChar_def)

lemma showInt_small:
  "showInt 1 = ''1''" "showInt 2 = ''2''" "showInt 3 = ''3''" "showInt 4 = ''4''" "showInt 5 = ''5''"
  by (simp_all add: showInt_def showNat.simps digitChar_def)

lemma weekLabel_cases:
  assumes "1 \<le> d" "d \<le> 31"
  shows "weekLabel (Date y m d) \<in> {''Week 1'', ''Week 2'', ''Week 3'', ''Week 4'', ''Week 5''}"
proof -
  from assms have "(int d + 6) div 7 \<in> {1, 2, 3, 4, 5}" by auto
  then have "showInt ((int d + 6) div 7) \<in> {''1'', ''2'', ''3'', ''4'', ''5''}"
    using showInt_small by auto
  then show ?thesis
    by (auto simp: weekLabel_def ceiling_day_of_month)
qed

lemma weekLabel_buckets:
  "(\<lambda>d. weekLabel (Date y m d)) ` {1..31} = {''Week 1'', ''Week 2'', ''Week 3'', ''Week 4'', ''Week 5''}"
proof
  show "(\<lambda>d. weekLabel (Date y m d)) ` {1..31} \<subseteq> {''Week 1'', ''Week 2'', ''Week 3'', ''Week 4'', ''Week 5''}"
  proof
    fix x assume "x \<in> (\<lambda>d. weekLabel (Date y m d)) ` {1..31}"
    then obtain d where "x = weekLabel (Date y m d)" "1 \<le> d" "d \<le> 31" by auto
    then show "x \<in> {''Week 1'', ''Week 2'', ''Week 3'', ''Week 4'', ''Week 5''}"
      using weekLabel_cases[of d y m] by blast
  qed
next
  have "weekLabel (Date y m 1) = ''Week 1''" "weekLabel (Date y m 8) = ''Week 2''"
    "weekLabel (Date y m 15) = ''Week 3''" "weekLabel (Date y m 22) = ''Week 4''"
    "weekLabel (Date y m 29) = ''Week 5''"
    by (simp_all add: weekLabel_def ceiling_day_of_month showInt_small)
  moreover have "(1::nat) \<in> {1..31}" "(8::nat) \<in> {1..31}" "(15::nat) \<in> {1..31}"
    "(22::nat) \<in> {1..31}" "(29::nat) \<in> {1..31}" by simp_all
  ultimately show "{''Week 1'', ''Week 2'', ''Week 3'', ''Week 4'', ''Week 5''} \<subseteq> (\<lambda>d. weekLabel (Date y m d)) ` {1..31}"
    by (metis (no_types, lifting) image_eqI insert_subset empty_subsetI)
qed

lemma enrichRecord_string_date:
  assumes "TrainingDate record = JStr s"
  shows "enrichRecord pf orga record =
     Inr (record\<lparr>FullName := fieldOrUnknown (getEmployeeById orga (TraineeId record)) empFullName,
                  Gender := fieldOrUnknown (getEmployeeById orga (TraineeId record)) empGender,
                  Project := fieldOrUnknown (getEmployeeById orga (TraineeId record)) PROJET,
                  CostCenter := fieldOrUnknown (getEmployeeById orga (TraineeId record)) empCostCenter,
                  Month := JStr (toLocaleMonth pf (dateParse pf (replaceDashes s))),
                  Week := JStr (weekLabel (dateParse pf (replaceDashes s)))\<rparr>)"
  using assms by (simp add: enrichRecord_def Let_def)

text \<open>
  C3. When the training date parses to a calendar date whose day of the month \<open>d\<close> lies
  between 1 and 31, enrichment returns and the week label is \<open>Week N\<close> with
  \<open>N = ceil(d / 7)\<close>; the labels that occur are exactly \<open>Week 1\<close> to \<open>Week 5\<close>;
  days 1 and 7 give \<open>Week 1\<close>, day 8 gives \<open>Week 2\<close> and day 31 gives \<open>Week 5\<close>.
\<close>

theorem enrichRecord_week_label:
  assumes "TrainingDate record = JStr s"
    and "dateParse pf (replaceDashes s) = Date y m d"
    and "1 \<le> d" and "d \<le> 31"
  shows "\<exists>enriched. enrichRecord pf orga record = Inr enriched
     \<and> Week enriched = JStr (''Week '' @ showInt \<lceil>real d / 7\<rceil>)
     \<and> Week enriched \<in> JStr ` {''Week 1'', ''Week 2'', ''Week 3'', ''Week 4'', ''Week 5''}
     \<and> (d = 1 \<longrightarrow> Week enriched = JStr ''Week 1'')
     \<and> (d = 7 \<longrightarrow> Week enriched = JStr ''Week 1'')
     \<and> (d = 8 \<longrightarrow> Week enriched = JStr ''Week 2'')
     \<and> (d = 31 \<longrightarrow> Week enriched = JStr ''Week 5'')
     \<and> (\<lambda>k. weekLabel (Date y m k)) ` {1..31} = {''Week 1'', ''Week 2'', ''Week 3'', ''Week 4'', ''Week 5''}"
proof -
  obtain enriched where e: "enrichRecord pf orga record = Inr enriched"
    and w: "Week enriched = JStr (weekLabel (Date y m d))"
    using enrichRecord_string_date[OF assms(1), of pf orga] assms(2) by simp
  have lab: "weekLabel (Date y m d) = ''Week '' @ showInt \<lceil>real d / 7\<rceil>"
    by (simp add: weekLabel_def)
  have five: "Week enriched \<in> JStr ` {''Week 1'', ''Week 2'', ''Week 3'', ''Week 4'', ''Week 5''}"
    unfolding w using weekLabel_cases[OF assms(3,4), of y m] by blast
  have ex: "d = 1 \<longrightarrow> Week enriched = JStr ''Week 1''" "d = 7 \<longrightarrow> Week enriched = JStr ''Week 1''"
    "d = 8 \<longrightarrow> Week enriched = JStr ''Week 2''" "d = 31 \<longrightarrow> Week enriched = JStr ''Week 5''"
    unfolding w using weekLabel_examples[of y m] by simp_all
  from w lab have "Week enriched = JStr (''Week '' @ showInt \<lceil>real d / 7\<rceil>)" by simp
  with e five ex weekLabel_buckets[of y m] show ?thesis by blast
qed

theorem enrichRecord_week_label_witness:
  "\<exists>enriched. enrichRecord refPlatform [sampleEmployee] sampleRecord = Inr enriched
     \<and> Week enriched = JStr ''Week 2''"
proof -
  have d: "dateParse refPlatform (replaceDashes ''2024-07-08'') = Date 2024 6 8"
    by (simp add: refPlatform_def replaceDashes_def ymdParse_def parseNat_def digitVal_def)
  have t: "TrainingDate sampleRecord = JStr ''2024-07-08''" by (simp add: sampleRecord_def)
  from enrichRecord_week_label[OF t d, of "[sampleEmployee]"] show ?thesis
    by auto
qed

section \<open>Monthly aggregation of the yearly report\<close>

lemma setAdd_fold_distinct:
  "distinct s \<Longrightarrow> distinct (foldl (\<lambda>acc x. setAdd x acc) s xs)
     \<and> set (foldl (\<lambda>acc x. setAdd x acc) s xs) = set s \<union> set xs"
  by (induction xs arbitrary: s) (auto simp: setAdd_def)

lemma distinct_count_list_one: "distinct xs \<Longrightarrow> x \<in> set xs \<Longrightarrow> count_list xs x = 1"
  by (induction xs) auto

lemma recordStep_other_month:
  "recordStep ops md r = Inr md' \<Longrightarrow> toStr (Month r) \<noteq> m \<Longrightarrow> md' m = md m"
  by (auto simp: recordStep_def Let_def split: option.splits if_splits)

lemma recordStep_not_qual:
  "recordStep ops md r = Inr md' \<Longrightarrow> TrainingType r \<noteq> JStr ''Qualification'' \<Longrightarrow> md m = Some b
    \<Longrightarrow> \<exists>b'. md' m = Some b' \<and> operatorsQual b' = operatorsQual b \<and> qualifRealised b' = qualifRealised b"
  by (auto simp: recordStep_def Let_def split: option.splits if_splits)

lemma recordStep_qual:
  "recordStep ops md r = Inr md' \<Longrightarrow> TrainingType r = JStr ''Qualification'' \<Longrightarrow> toStr (Month r) = m
    \<Longrightarrow> md m = Some b
    \<Longrightarrow> \<exists>b'. md' m = Some b' \<and> operatorsQual b' = setAdd (TraineeId r) (operatorsQual b)
          \<and> qualifRealised b' = qualifRealised b + 1"
  by (auto simp: recordStep_def Let_def split: option.splits if_splits)

lemma recordLoop_month:
  "forEachE (recordStep ops) records md0 = Inr md \<Longrightarrow> md0 m = Some b0 \<Longrightarrow>
   \<exists>b. md m = Some b
     \<and> operatorsQual b = foldl (\<lambda>acc x. setAdd x acc) (operatorsQual b0) (map TraineeId (qualificationRows m records))
     \<and> qualifRealised b = qualifRealised b0 + length (qualificationRows m records)"
proof (induction records arbitrary: md0 b0)
  case Nil
  then show ?case by (simp add: qualificationRows_def)
next
  case (Cons r records)
  from Cons.prems(1) obtain md1 where step: "recordStep ops md0 r = Inr md1"
    and rest: "forEachE (recordStep ops) records md1 = Inr md"
    by (auto split: sum.splits)
  show ?case
  proof (cases "toStr (Month r) = m \<and> TrainingType r = JStr ''Qualification''")
    case True
    with recordStep_qual[OF step _ _ Cons.prems(2)] obtain b1 where b1: "md1 m = Some b1"
      "operatorsQual b1 = setAdd (TraineeId r) (operatorsQual b0)" "qualifRealised b1 = qualifRealised b0 + 1"
      by blast
    from Cons.IH[OF rest b1(1)] b1(2,3) True show ?thesis
      by (auto simp: qualificationRows_def)
  next
    case False
    have "\<exists>b1. md1 m = Some b1 \<and> operatorsQual b1 = operatorsQual b0 \<and> qualifRealised b1 = qualifRealised b0"
    proof (cases "toStr (Month r) = m")
      case True
      with False have "TrainingType r \<noteq> JStr ''Qualification''" by simp
      from recordStep_not_qual[OF step this Cons.prems(2)] show ?thesis .
    next
      case False
      from recordStep_other_month[OF step False] Cons.prems(2) show ?thesis by simp
    qed
    then obtain b1 where b1: "md1 m = Some b1" "operatorsQual b1 = operatorsQual b0"
      "qualifRealised b1 = qualifRealised b0"
      by blast
    from Cons.IH[OF rest b1(1)] b1(2,3) False show ?thesis
      by (auto simp: qualificationRows_def)
  qed
qed

lemma planStep_keeps:
  "planStep pf md p = Inr md' \<Longrightarrow> md m = Some b
    \<Longrightarrow> \<exists>b'. md' m = Some b' \<and> operatorsQual b' = operatorsQual b \<and> qualifRealised b' = qualifRealised b"
  by (auto simp: planStep_def Let_def split: jsval.splits option.splits if_splits)

lemma planLoop_keeps:
  "forEachE (planStep pf) plans md0 = Inr md \<Longrightarrow> md0 m = Some b0
    \<Longrightarrow> \<exists>b. md m = Some b \<and> operatorsQual b = operatorsQual b0 \<and> qualifRealised b = qualifRealised b0"
proof (induction plans arbitrary: md0 b0)
  case Nil
  then show ?case by simp
next
  case (Cons p plans)
  from Cons.prems(1) obtain md1 where step: "planStep pf md0 p = Inr md1"
    and rest: "forEachE (planStep pf) plans md1 = Inr md"
    by (auto split: sum.splits)
  from planStep_keeps[OF step Cons.prems(2)] obtain b1 where
    "md1 m = Some b1" "operatorsQual b1 = operatorsQual b0" "qualifRealised b1 = qualifRealised b0" by blast
  with Cons.IH[OF rest this(1)] show ?case by auto
qed

lemma initialMonthlyData_fiscal:
  "m \<in> set FISCAL_MONTHS \<Longrightarrow> initialMonthlyData ops m = Some (emptyBucket ops)"
  unfolding initialMonthlyData_def by (simp add: map_of_map_restrict)

lemma planStep_returns:
  "plannedDate p = JStr s \<Longrightarrow> trainees p = Some ts \<Longrightarrow> \<exists>md'. planStep pf md p = Inr md'"
  by (auto simp: planStep_def Let_def split: option.splits)

lemma planLoop_returns:
  "\<forall>p \<in> set plans. (\<exists>s. plannedDate p = JStr s) \<and> (\<exists>ts. trainees p = Some ts)
    \<Longrightarrow> \<exists>md. forEachE (planStep pf) plans md0 = Inr md"
proof (induction plans arbitrary: md0)
  case Nil
  then show ?case by simp
next
  case (Cons p plans)
  then obtain s ts where "plannedDate p = JStr s" "trainees p = Some ts" by auto
  from planStep_returns[OF this, of pf md0] obtain md1 where "planStep pf md0 p = Inr md1" by blast
  moreover from Cons obtain md where "forEachE (planStep pf) plans md1 = Inr md" by fastforce
  ultimately show ?case by simp
qed

lemma recordStep_returns:
  "toStr (Month r) \<notin> set inheritedKeys \<Longrightarrow> \<exists>md'. recordStep ops md r = Inr md'"
  by (auto simp: recordStep_def Let_def split: option.splits)

lemma recordLoop_returns:
  "\<forall>r \<in> set records. toStr (Month r) \<notin> set inheritedKeys
    \<Longrightarrow> \<exists>md. forEachE (recordStep ops) records md0 = Inr md"
proof (induction records arbitrary: md0)
  case Nil
  then show ?case by simp
next
  case (Cons r records)
  then have "toStr (Month r) \<notin> set inheritedKeys" by simp
  from recordStep_returns[OF this, of ops md0] obtain md1 where "recordStep ops md0 r = Inr md1" by blast
  moreover from Cons obtain md where "forEachE (recordStep ops) records md1 = Inr md" by fastforce
  ultimately show ?case by simp
qed

lemma calculateMonthlyData_returns:
  assumes "\<forall>p \<in> set plans. (\<exists>s. plannedDate p = JStr s) \<and> (\<exists>ts. trainees p = Some ts)"
    and "\<forall>r \<in> set records. toStr (Month r) \<notin> set inheritedKeys"
  shows "\<exists>md. calculateMonthlyData ops pf records plans = Inr md"
proof -
  from planLoop_returns[OF assms(1)] obtain md1
    where "forEachE (planStep pf) plans (initialMonthlyData ops) = Inr md1" by blast
  with recordLoop_returns[OF assms(2), of ops md1] show ?thesis
    by (simp add: calculateMonthlyData_def)
qed

lemma calculateMonthlyData_qualification:
  assumes "calculateMonthlyData ops pf records plans = Inr md" and "m \<in> set FISCAL_MONTHS"
  shows "\<exists>b. md m = Some b
     \<and> distinct (operatorsQual b)
     \<and> set (operatorsQual b) = TraineeId ` set (qualificationRows m records)
     \<and> qualifRealised b = length (qualificationRows m records)"
proof -
  from assms(1) obtain md1 where p: "forEachE (planStep pf) plans (initialMonthlyData ops) = Inr md1"
    and r: "forEachE (recordStep ops) records md1 = Inr md"
    by (auto simp: calculateMonthlyData_def split: sum.splits)
  from planLoop_keeps[OF p initialMonthlyData_fiscal[OF assms(2)]] obtain b1 where
    b1: "md1 m = Some b1" "operatorsQual b1 = []" "qualifRealised b1 = 0"
    by (auto simp: emptyBucket_def)
  from recordLoop_month[OF r b1(1)] obtain b where b: "md m = Some b"
    "operatorsQual b = foldl (\<lambda>acc x. setAdd x acc) [] (map TraineeId (qualificationRows m records))"
    "qualifRealised b = length (qualificationRows m records)"
    using b1(2,3) by auto
  from setAdd_fold_distinct[of "[]" "map TraineeId (qualificationRows m records)"] b(2)
  have "distinct (operatorsQual b)" "set (operatorsQual b) = TraineeId ` set (qualificationRows m records)"
    by auto
  with b(1,3) show ?thesis by blast
qed

text \<open>
  C1. In the monthly aggregation, for a fiscal month in which trainee \<open>t\<close> has \<open>N > 1\<close>
  records of type Qualification: the set of operators qualified holds \<open>t\<close> exactly once
  and its size is the number of distinct trainee identifiers among the month's
  Qualification records, while the count of qualifications realised is the number of
  those records (at least \<open>N\<close>, and exactly \<open>N\<close> with size 1 when they all belong to
  \<open>t\<close>). The aggregation returns whenever every planned session has a string date and a
  trainee list and no record's month names an inherited object member.
\<close>

theorem calculateMonthlyData_distinct_operators:
  assumes "month \<in> set FISCAL_MONTHS"
    and "N = length (filter (\<lambda>r. TraineeId r = t) (qualificationRows month records))"
    and "N > 1"
  shows "((\<forall>p \<in> set plans. (\<exists>s. plannedDate p = JStr s) \<and> (\<exists>ts. trainees p = Some ts))
          \<and> (\<forall>r \<in> set records. toStr (Month r) \<notin> set inheritedKeys)
          \<longrightarrow> (\<exists>md. calculateMonthlyData ops pf records plans = Inr md))
     \<and> (\<forall>md. calculateMonthlyData ops pf records plans = Inr md \<longrightarrow>
          (\<exists>b. md month = Some b
             \<and> count_list (operatorsQual b) t = 1
             \<and> length (operatorsQual b) = card (TraineeId ` set (qualificationRows month records))
             \<and> qualifRealised b = length (qualificationRows month records)
             \<and> N \<le> qualifRealised b
             \<and> ((\<forall>r \<in> set (qualificationRows month records). TraineeId r = t)
                  \<longrightarrow> length (operatorsQual b) = 1 \<and> qualifRealised b = N)))"
proof (intro conjI allI impI)
  assume "(\<forall>p \<in> set plans. (\<exists>s. plannedDate p = JStr s) \<and> (\<exists>ts. trainees p = Some ts))
          \<and> (\<forall>r \<in> set records. toStr (Month r) \<notin> set inheritedKeys)"
  then show "\<exists>md. calculateMonthlyData ops pf records plans = Inr md"
    using calculateMonthlyData_returns by blast
next
  fix md
  assume ret: "calculateMonthlyData ops pf records plans = Inr md"
  let ?rows = "qualificationRows month records"
  from calculateMonthlyData_qualification[OF ret assms(1)] obtain b where
    b: "md month = Some b" "distinct (operatorsQual b)"
      "set (operatorsQual b) = TraineeId ` set ?rows" "qualifRealised b = length ?rows"
    by blast
  from assms(2,3) have "filter (\<lambda>r. TraineeId r = t) ?rows \<noteq> []" by auto
  then obtain r where "r \<in> set ?rows" "TraineeId r = t"
    by (metis (mono_tags, lifting) filter_False)
  then have t_in: "t \<in> set (operatorsQual b)" using b(3) by blast
  have once: "count_list (operatorsQual b) t = 1"
    using distinct_count_list_one[OF b(2) t_in] .
  have size: "length (operatorsQual b) = card (TraineeId ` set ?rows)"
    using distinct_card[OF b(2)] b(3) by simp
  have ge: "N \<le> qualifRealised b"
    unfolding assms(2) b(4) by (rule length_filter_le)
  have only: "length (operatorsQual b) = 1 \<and> qualifRealised b = N"
    if all: "\<forall>r \<in> set ?rows. TraineeId r = t"
  proof -
    from all have "filter (\<lambda>r. TraineeId r = t) ?rows = ?rows" by (simp add: filter_True)
    with assms(2) b(4) have n: "qualifRealised b = N" by simp
    from all t_in b(3) have "set (operatorsQual b) = {t}" by auto
    with b(2) have "length (operatorsQual b) = 1"
      by (metis distinct_card card_1_singleton_iff is_singletonI is_singleton_altdef One_nat_def card.empty card_insert_disjoint empty_iff finite.emptyI)
    with n show ?thesis by simp
  qed
  from b(1) once size b(4) ge only
  show "\<exists>b. md month = Some b
             \<and> count_list (operatorsQual b) t = 1
             \<and> length (operatorsQual b) = card (TraineeId ` set ?rows)
             \<and> qualifRealised b = length ?rows
             \<and> N \<le> qualifRealised b
             \<and> ((\<forall>r \<in> set ?rows. TraineeId r = t)
                  \<longrightarrow> length (operatorsQual b) = 1 \<and> qualifRealised b = N)"
    by blast
qed

theorem calculateMonthlyData_distinct_operators_witness:
  "\<exists>md b. calculateMonthlyData idealOps refPlatform
       [sampleRecord, sampleRecord\<lparr>Id' := JStr ''r2''\<rparr>, sampleRecord\<lparr>Id' := JStr ''r3'', TrainingType := JStr ''Refreshment''\<rparr>]
       [samplePlan] = Inr md
     \<and> md ''July'' = Some b
     \<and> count_list (operatorsQual b) (JStr ''1001'') = 1
     \<and> length (operatorsQual b) = 1
     \<and> qualifRealised b = 2"
proof -
  let ?records = "[sampleRecord, sampleRecord\<lparr>Id' := JStr ''r2''\<rparr>, sampleRecord\<lparr>Id' := JStr ''r3'', TrainingType := JStr ''Refreshment''\<rparr>]"
  have m: "''July'' \<in> set FISCAL_MONTHS" by (simp add: FISCAL_MONTHS_def)
  have rows: "qualificationRows ''July'' ?records = [sampleRecord, sampleRecord\<lparr>Id' := JStr ''r2''\<rparr>]"
    by (simp add: qualificationRows_def sampleRecord_def)
  have n: "(2::nat) = length (filter (\<lambda>r. TraineeId r = JStr ''1001'') (qualificationRows ''July'' ?records))"
    unfolding rows by (simp add: sampleRecord_def)
  have all: "\<forall>r \<in> set (qualificationRows ''July'' ?records). TraineeId r = JStr ''1001''"
    unfolding rows by (simp add: sampleRecord_def)
  have wf: "(\<forall>p \<in> set [samplePlan]. (\<exists>s. plannedDate p = JStr s) \<and> (\<exists>ts. trainees p = Some ts))
          \<and> (\<forall>r \<in> set ?records. toStr (Month r) \<notin> set inheritedKeys)"
    by (simp add: samplePlan_def sampleRecord_def inheritedKeys_def)
  from calculateMonthlyData_distinct_operators[OF m n, of "[samplePlan]" idealOps refPlatform] wf all
  show ?thesis by (simp del: set_simps) blast
qed

section \<open>The record store\<close>

lemma findIndex_Some:
  "findIndex P xs = Some i \<Longrightarrow> i < length xs \<and> P (xs ! i) \<and> find P xs = Some (xs ! i)"
proof (induction xs arbitrary: i)
  case Nil
  then show ?case by simp
next
  case (Cons x xs)
  then show ?case by (cases "P x") auto
qed

lemma findIndex_None: "findIndex P xs = None \<longleftrightarrow> (\<forall>x \<in> set xs. \<not> P x)"
  by (induction xs) auto

lemma find_Some_findIndex: "find P xs = Some x \<Longrightarrow> \<exists>i. findIndex P xs = Some i \<and> xs ! i = x"
proof (induction xs)
  case Nil
  then show ?case by simp
next
  case (Cons y ys)
  then show ?case by (cases "P y") auto
qed

lemma find_list_update:
  "findIndex P xs = Some i \<Longrightarrow> P y \<Longrightarrow> find P (xs[i := y]) = Some y"
proof (induction xs arbitrary: i)
  case Nil
  then show ?case by simp
next
  case (Cons x xs)
  then show ?case by (cases "P x") auto
qed

lemma keys_distinct: "TRAINING_DATA \<noteq> PLANNED_SESSIONS"
  by (simp add: TRAINING_DATA_def PLANNED_SESSIONS_def)

lemma saveToLocalStorage_memory:
  "trainingData (saveToLocalStorage pf st) = trainingData st"
  "plannedSessions (saveToLocalStorage pf st) = plannedSessions st"
  "orgaData (saveToLocalStorage pf st) = orgaData st"
  "currentUser (saveToLocalStorage pf st) = currentUser st"
  by (simp_all add: saveToLocalStorage_def save_def Let_def)

lemma saveToLocalStorage_persists:
  "setItemOk pf TRAINING_DATA (TrainingJSON (trainingData st))
    \<Longrightarrow> localStorage (saveToLocalStorage pf st) TRAINING_DATA = Some (TrainingJSON (trainingData st))"
  using keys_distinct by (simp add: saveToLocalStorage_def save_def Let_def)

lemma saveToLocalStorage_calls:
  "setItemCalls (saveToLocalStorage pf st) = setItemCalls st + 2"
  by (simp add: saveToLocalStorage_def save_def Let_def)

lemma updateRecord_found:
  assumes "findIndex (\<lambda>r. Id' r = Id' payload) (trainingData st) = Some i"
    and "enrichRecord pf (orgaData st) (payload\<lparr>Trainer := Trainer (trainingData st ! i)\<rparr>) = Inr stored"
  shows "updateRecord pf payload st
     = (Inr (), saveToLocalStorage pf (st\<lparr>trainingData := (trainingData st)[i := stored]\<rparr>))"
  using assms by (simp add: updateRecord_def)

lemma updateRecord_throws:
  assumes "findIndex (\<lambda>r. Id' r = Id' payload) (trainingData st) = Some i"
    and "enrichRecord pf (orgaData st) (payload\<lparr>Trainer := Trainer (trainingData st ! i)\<rparr>) = Inl e"
  shows "updateRecord pf payload st = (Inl e, st)"
  using assms by (simp add: updateRecord_def)

lemma enrichRecord_keeps:
  assumes "enrichRecord pf orga record = Inr enriched"
  shows "Id' enriched = Id' record" "TrainingDate enriched = TrainingDate record"
    "TraineeId enriched = TraineeId record" "TrainingType enriched = TrainingType record"
    "Process enriched = Process record" "RefreshmentType enriched = RefreshmentType record"
    "TrainingHours enriched = TrainingHours record" "Sector enriched = Sector record"
    "Trainer enriched = Trainer record"
  using assms by (auto simp: enrichRecord_def Let_def split: jsval.splits)

text \<open>
  C4. When the store holds a record with the payload's identifier, \<open>updateRecord\<close>
  leaves the record found under that identifier with the trainer it had before,
  whatever trainer the payload carries, and this also holds when enrichment throws.
  When the payload's training date is a string (every field of the edit form is), the
  update completes, the record is replaced in place by the enrichment of the payload
  with the original trainer, the identifier, date, trainee, type, process, refreshment
  type, hours and sector are the payload's, and an accepted write persists exactly the
  new collection.
\<close>

theorem updateRecord_preserves_trainer:
  assumes "getRecordById st (Id' payload) = Some original"
  shows "(\<exists>stored. getRecordById (snd (updateRecord pf payload st)) (Id' payload) = Some stored
            \<and> Trainer stored = Trainer original)
     \<and> (\<forall>s. TrainingDate payload = JStr s \<longrightarrow>
          (\<exists>stored i. updateRecord pf payload st
                 = (Inr (), saveToLocalStorage pf (st\<lparr>trainingData := (trainingData st)[i := stored]\<rparr>))
             \<and> findIndex (\<lambda>r. Id' r = Id' payload) (trainingData st) = Some i
             \<and> enrichRecord pf (orgaData st) (payload\<lparr>Trainer := Trainer original\<rparr>) = Inr stored
             \<and> getRecordById (snd (updateRecord pf payload st)) (Id' payload) = Some stored
             \<and> trainingData (snd (updateRecord pf payload st)) = (trainingData st)[i := stored]
             \<and> Trainer stored = Trainer original
             \<and> Id' stored = Id' payload \<and> TrainingDate stored = TrainingDate payload
             \<and> TraineeId stored = TraineeId payload \<and> TrainingType stored = TrainingType payload
             \<and> Process stored = Process payload \<and> RefreshmentType stored = RefreshmentType payload
             \<and> TrainingHours stored = TrainingHours payload \<and> Sector stored = Sector payload
             \<and> (setItemOk pf TRAINING_DATA (TrainingJSON ((trainingData st)[i := stored]))
                  \<longrightarrow> localStorage (snd (updateRecord pf payload st)) TRAINING_DATA
                        = Some (TrainingJSON ((trainingData st)[i := stored])))))"
proof -
  let ?P = "\<lambda>r. Id' r = Id' payload"
  from assms obtain i where i: "findIndex ?P (trainingData st) = Some i"
    and at: "trainingData st ! i = original"
    unfolding getRecordById_def using find_Some_findIndex[of ?P "trainingData st" original] by blast
  let ?payload1 = "payload\<lparr>Trainer := Trainer original\<rparr>"
  have found:
    "updateRecord pf payload st = (Inr (), saveToLocalStorage pf (st\<lparr>trainingData := (trainingData st)[i := stored]\<rparr>))
     \<and> getRecordById (snd (updateRecord pf payload st)) (Id' payload) = Some stored
     \<and> trainingData (snd (updateRecord pf payload st)) = (trainingData st)[i := stored]
     \<and> Trainer stored = Trainer original
     \<and> Id' stored = Id' payload \<and> TrainingDate stored = TrainingDate payload
     \<and> TraineeId stored = TraineeId payload \<and> TrainingType stored = TrainingType payload
     \<and> Process stored = Process payload \<and> RefreshmentType stored = RefreshmentType payload
     \<and> TrainingHours stored = TrainingHours payload \<and> Sector stored = Sector payload
     \<and> (setItemOk pf TRAINING_DATA (TrainingJSON ((trainingData st)[i := stored]))
          \<longrightarrow> localStorage (snd (updateRecord pf payload st)) TRAINING_DATA
                = Some (TrainingJSON ((trainingData st)[i := stored])))"
    if en: "enrichRecord pf (orgaData st) ?payload1 = Inr stored" for stored
  proof -
    from en at have en': "enrichRecord pf (orgaData st) (payload\<lparr>Trainer := Trainer (trainingData st ! i)\<rparr>) = Inr stored"
      by simp
    note upd = updateRecord_found[OF i en']
    note keep = enrichRecord_keeps[OF en]
    from keep(1) have pid: "?P stored" by simp
    have get: "getRecordById (snd (updateRecord pf payload st)) (Id' payload) = Some stored"
      unfolding upd getRecordById_def
      using find_list_update[OF i pid] by (simp add: saveToLocalStorage_memory)
    have mem: "trainingData (snd (updateRecord pf payload st)) = (trainingData st)[i := stored]"
      unfolding upd by (simp add: saveToLocalStorage_memory)
    have pers: "setItemOk pf TRAINING_DATA (TrainingJSON ((trainingData st)[i := stored]))
          \<longrightarrow> localStorage (snd (updateRecord pf payload st)) TRAINING_DATA
                = Some (TrainingJSON ((trainingData st)[i := stored]))"
      unfolding upd
      using saveToLocalStorage_persists[of pf "st\<lparr>trainingData := (trainingData st)[i := stored]\<rparr>"]
      by simp
    from upd get mem pers keep show ?thesis by simp
  qed
  have first: "\<exists>stored. getRecordById (snd (updateRecord pf payload st)) (Id' payload) = Some stored
            \<and> Trainer stored = Trainer original"
  proof (cases "enrichRecord pf (orgaData st) ?payload1")
    case (Inl e)
    with at have "enrichRecord pf (orgaData st) (payload\<lparr>Trainer := Trainer (trainingData st ! i)\<rparr>) = Inl e"
      by simp
    from updateRecord_throws[OF i this] assms show ?thesis by simp
  next
    case (Inr stored)
    from found[OF this] show ?thesis by blast
  qed
  have second: "\<exists>stored i. updateRecord pf payload st
                 = (Inr (), saveToLocalStorage pf (st\<lparr>trainingData := (trainingData st)[i := stored]\<rparr>))
             \<and> findIndex ?P (trainingData st) = Some i
             \<and> enrichRecord pf (orgaData st) ?payload1 = Inr stored
             \<and> getRecordById (snd (updateRecord pf payload st)) (Id' payload) = Some stored
             \<and> trainingData (snd (updateRecord pf payload st)) = (trainingData st)[i := stored]
             \<and> Trainer stored = Trainer original
             \<and> Id' stored = Id' payload \<and> TrainingDate stored = TrainingDate payload
             \<and> TraineeId stored = TraineeId payload \<and> TrainingType stored = TrainingType payload
             \<and> Process stored = Process payload \<and> RefreshmentType stored = RefreshmentType payload
             \<and> TrainingHours stored = TrainingHours payload \<and> Sector stored = Sector payload
             \<and> (setItemOk pf TRAINING_DATA (TrainingJSON ((trainingData st)[i := stored]))
                  \<longrightarrow> localStorage (snd (updateRecord pf payload st)) TRAINING_DATA
                        = Some (TrainingJSON ((trainingData st)[i := stored])))"
    if d: "TrainingDate payload = JStr s" for s
  proof -
    from d have "TrainingDate ?payload1 = JStr s" by simp
    from enrichRecord_string_date[OF this, of pf "orgaData st"]
    obtain stored where en: "enrichRecord pf (orgaData st) ?payload1 = Inr stored" by blast
    from found[OF en] i en show ?thesis by blast
  qed
  from first second show ?thesis by blast
qed

theorem updateRecord_preserves_trainer_witness:
  "\<exists>stored. getRecordById
        (snd (updateRecord refPlatform (sampleRecord\<lparr>Trainer := JStr ''Bob'', TrainingHours := JStr ''5''\<rparr>) sampleService))
        (JStr ''r1'') = Some stored
     \<and> Trainer stored = JStr ''Alice'' \<and> TrainingHours stored = JStr ''5''"
proof -
  let ?payload = "sampleRecord\<lparr>Trainer := JStr ''Bob'', TrainingHours := JStr ''5''\<rparr>"
  have idp: "Id' ?payload = JStr ''r1''" by (simp add: sampleRecord_def)
  have g: "getRecordById sampleService (Id' ?payload) = Some sampleRecord"
    by (simp add: getRecordById_def sampleService_def sampleRecord_def)
  have d: "TrainingDate ?payload = JStr ''2024-07-08''" by (simp add: sampleRecord_def)
  have t: "Trainer sampleRecord = JStr ''Alice''" "TrainingHours ?payload = JStr ''5''"
    by (simp_all add: sampleRecord_def)
  from updateRecord_preserves_trainer[OF g, of refPlatform] d
  obtain stored where
    "getRecordById (snd (updateRecord refPlatform ?payload sampleService)) (Id' ?payload) = Some stored"
    "Trainer stored = Trainer sampleRecord" "TrainingHours stored = TrainingHours ?payload"
    by blast
  with idp t show ?thesis by simp
qed

text \<open>
  C10. When no stored training record has the payload's identifier, \<open>updateRecord\<close>
  returns normally with the service unchanged: both collections, the contents of
  localStorage and the number of \<open>setItem\<close> calls are what they were.
\<close>

theorem updateRecord_absent_noop:
  assumes "\<forall>r \<in> set (trainingData st). Id' r \<noteq> Id' payload"
  shows "updateRecord pf payload st = (Inr (), st)
     \<and> trainingData (snd (updateRecord pf payload st)) = trainingData st
     \<and> plannedSessions (snd (updateRecord pf payload st)) = plannedSessions st
     \<and> localStorage (snd (updateRecord pf payload st)) = localStorage st
     \<and> setItemCalls (snd (updateRecord pf payload st)) = setItemCalls st"
proof -
  from assms have "findIndex (\<lambda>r. Id' r = Id' payload) (trainingData st) = None"
    by (simp add: findIndex_None)
  then have "updateRecord pf payload st = (Inr (), st)" by (simp add: updateRecord_def)
  then show ?thesis by simp
qed

theorem updateRecord_absent_noop_witness:
  "updateRecord refPlatform (sampleRecord\<lparr>Id' := JStr ''r9'', Trainer := JStr ''Bob''\<rparr>) sampleService
     = (Inr (), sampleService)
   \<and> setItemCalls (snd (updateRecord refPlatform (sampleRecord\<lparr>Id' := JStr ''r9'', Trainer := JStr ''Bob''\<rparr>) sampleService)) = 0"
proof -
  have a: "\<forall>r \<in> set (trainingData sampleService). Id' r \<noteq> Id' (sampleRecord\<lparr>Id' := JStr ''r9'', Trainer := JStr ''Bob''\<rparr>)"
    by (simp add: sampleService_def sampleRecord_def)
  have "setItemCalls sampleService = 0" by (simp add: sampleService_def)
  with updateRecord_absent_noop[OF a, of refPlatform] show ?thesis by simp
qed

subsection \<open>Roster lookup and enrichment\<close>

lemma getEmployeeById_no_match:
  assumes "\<forall>emp \<in> set orga. \<not> (truthy (Matricule emp) \<and> trim (toStr (Matricule emp)) = trim (toStr ident))"
  shows "getEmployeeById orga ident = (if truthy ident then RUndefined else RNull)"
proof -
  from assms have "find (\<lambda>emp. truthy (Matricule emp) \<and> trim (toStr (Matricule emp)) = trim (toStr ident)) orga = None"
    by (simp add: find_None_iff)
  then show ?thesis by (simp add: getEmployeeById_def)
qed

lemma getEmployeeById_match:
  assumes "getEmployeeById orga ident = RObject emp"
  shows "emp \<in> set orga \<and> truthy ident \<and> truthy (Matricule emp)
     \<and> trim (toStr (Matricule emp)) = trim (toStr ident)"
proof -
  from assms have "truthy ident"
    and "find (\<lambda>emp. truthy (Matricule emp) \<and> trim (toStr (Matricule emp)) = trim (toStr ident)) orga = Some emp"
    by (auto simp: getEmployeeById_def Let_def split: if_splits option.splits)
  then show ?thesis by (auto simp: find_Some_iff)
qed

text \<open>
  C5. When no roster entry matches the trainee identifier of a record and its training
  date is a string (every field of the entry form is), \<open>addRecord\<close> completes without
  throwing, the enriched record is prepended to the collection, and its full name,
  gender, project and cost center are all \<open>Unknown\<close>.
\<close>

theorem addRecord_unknown_trainee:
  assumes "\<forall>emp \<in> set (orgaData st).
             \<not> (truthy (Matricule emp) \<and> trim (toStr (Matricule emp)) = trim (toStr (TraineeId record)))"
    and "TrainingDate record = JStr s"
  shows "\<exists>enriched. addRecord pf freshId record st
            = (Inr (), saveToLocalStorage pf (st\<lparr>trainingData := enriched # trainingData st\<rparr>))
     \<and> trainingData (snd (addRecord pf freshId record st)) = enriched # trainingData st
     \<and> FullName enriched = JStr ''Unknown'' \<and> Gender enriched = JStr ''Unknown''
     \<and> Project enriched = JStr ''Unknown'' \<and> CostCenter enriched = JStr ''Unknown''
     \<and> Id' enriched = JStr freshId \<and> TraineeId enriched = TraineeId record"
proof -
  let ?r2 = "record\<lparr>Id' := JStr freshId, Trainer := orElse (Trainer record) (JStr (currentUser st))\<rparr>"
  have d: "TrainingDate ?r2 = JStr s" using assms(2) by simp
  from assms(1) have "\<forall>emp \<in> set (orgaData st).
       \<not> (truthy (Matricule emp) \<and> trim (toStr (Matricule emp)) = trim (toStr (TraineeId ?r2)))" by simp
  from getEmployeeById_no_match[OF this]
  have unk: "fieldOrUnknown (getEmployeeById (orgaData st) (TraineeId ?r2)) f = JStr ''Unknown''" for f
    by (simp add: fieldOrUnknown_def)
  note en = enrichRecord_string_date[OF d, of pf "orgaData st"]
  have add: "addRecord pf freshId record st
       = (case enrichRecord pf (orgaData st) ?r2 of Inl e \<Rightarrow> (Inl e, st)
          | Inr enrichedRecord \<Rightarrow> (Inr (), saveToLocalStorage pf (st\<lparr>trainingData := enrichedRecord # trainingData st\<rparr>)))"
    by (simp add: addRecord_def Let_def)
  show ?thesis
    unfolding add en unk by (simp add: saveToLocalStorage_memory)
qed

theorem addRecord_unknown_trainee_witness:
  "\<exists>enriched. trainingData (snd (addRecord refPlatform ''r7'' (sampleRecord\<lparr>TraineeId := JStr ''4242''\<rparr>) sampleService))
         = enriched # trainingData sampleService
     \<and> fst (addRecord refPlatform ''r7'' (sampleRecord\<lparr>TraineeId := JStr ''4242''\<rparr>) sampleService) = Inr ()
     \<and> FullName enriched = JStr ''Unknown'' \<and> Gender enriched = JStr ''Unknown''
     \<and> Project enriched = JStr ''Unknown'' \<and> CostCenter enriched = JStr ''Unknown''"
proof -
  have a: "\<forall>emp \<in> set (orgaData sampleService).
             \<not> (truthy (Matricule emp) \<and> trim (toStr (Matricule emp))
                  = trim (toStr (TraineeId (sampleRecord\<lparr>TraineeId := JStr ''4242''\<rparr>))))"
    by (simp add: sampleService_def sampleEmployee_def trim_def isWhiteSpace_def)
  have d: "TrainingDate (sampleRecord\<lparr>TraineeId := JStr ''4242''\<rparr>) = JStr ''2024-07-08''"
    by (simp add: sampleRecord_def)
  from addRecord_unknown_trainee[OF a d, of refPlatform "''r7''"] show ?thesis
    by auto
qed

text \<open>
  C6. Evaluation of the code where the claim fails. A record without a training date
  (\<open>undefined\<close>, or \<open>null\<close>) makes \<open>_enrichRecord\<close> throw a \<open>TypeError\<close>, and so makes
  \<open>importData\<close> throw on a CSV row that lacks the column, leaving the service as it was.
  A date string that does not parse does not throw; its month is \<open>Invalid Date\<close> and its
  week is \<open>Week NaN\<close>.
\<close>

theorem enrichRecord_missing_date_throws:
  "enrichRecord pf orga (record\<lparr>TrainingDate := JUndefined\<rparr>) = Inl TypeError
   \<and> enrichRecord pf orga (record\<lparr>TrainingDate := JNull\<rparr>) = Inl TypeError
   \<and> importData pf freshId [record\<lparr>TrainingDate := JUndefined\<rparr>] st = (Inl TypeError, st)
   \<and> enrichRecord refPlatform [sampleEmployee] (sampleRecord\<lparr>TrainingDate := JStr ''soon''\<rparr>)
       = Inr (sampleRecord\<lparr>TrainingDate := JStr ''soon'', Month := JStr ''Invalid Date'', Week := JStr ''Week NaN''\<rparr>)"
proof -
  have a: "enrichRecord pf orga (r\<lparr>TrainingDate := JUndefined\<rparr>) = Inl TypeError" for r orga
    by (simp add: enrichRecord_def Let_def)
  have b: "enrichRecord pf orga (record\<lparr>TrainingDate := JNull\<rparr>) = Inl TypeError"
    by (simp add: enrichRecord_def Let_def)
  have c: "importData pf freshId [record\<lparr>TrainingDate := JUndefined\<rparr>] st = (Inl TypeError, st)"
    by (simp add: importData_def Let_def enrichRecord_def)
  have p: "ymdParse ''soon'' = InvalidDate"
    by (simp add: ymdParse_def parseNat_def digitVal_def)
  have d: "enrichRecord refPlatform [sampleEmployee] (sampleRecord\<lparr>TrainingDate := JStr ''soon''\<rparr>)
       = Inr (sampleRecord\<lparr>TrainingDate := JStr ''soon'', Month := JStr ''Invalid Date'', Week := JStr ''Week NaN''\<rparr>)"
    by (simp add: enrichRecord_def Let_def refPlatform_def replaceDashes_def p toLocaleMonth_def weekLabel_def
        getEmployeeById_def sampleRecord_def sampleEmployee_def trim_def isWhiteSpace_def fieldOrUnknown_def)
  from a b c d show ?thesis by blast
qed

text \<open>
  C9. Evaluation of the code where the claim fails. With one roster entry whose
  Matricule is \<open>" 1001 "\<close>: the identifier \<open>"1001 "\<close> finds it (both sides trimmed), the
  empty identifier gives \<open>null\<close>, and an identifier that matches nothing gives
  \<open>undefined\<close>, not \<open>null\<close>.
\<close>

theorem getEmployeeById_no_match_undefined:
  "getEmployeeById [sampleEmployee] (JStr ''9999'') = RUndefined
   \<and> getEmployeeById [sampleEmployee] (JStr ''9999'') \<noteq> RNull
   \<and> getEmployeeById [sampleEmployee] (JStr []) = RNull
   \<and> getEmployeeById [sampleEmployee] (JStr ''1001 '') = RObject sampleEmployee"
  by (simp add: getEmployeeById_def sampleEmployee_def trim_def isWhiteSpace_def)

section \<open>Cross-tabulation by bucket and sector\<close>

text \<open>
  C7. Evaluation of the code where the claim fails. For a record without a sector the
  weekly and monthly cross-tabulations use the keys \<open>Week 2-undefined\<close> and
  \<open>July-undefined\<close>, and for an empty sector \<open>Week 2-\<close>; the sector part is not
  \<open>Unknown\<close>. The chart of sessions by area counts the same record under \<open>Unknown\<close>.
\<close>

theorem weeklyHoursByGender_missing_sector:
  "map label (weeklyHoursByGender idealOps [sampleRecord\<lparr>Sector := JUndefined\<rparr>]) = [''Week 2-undefined'']
   \<and> map label (monthlyHoursByGender idealOps [sampleRecord\<lparr>Sector := JUndefined\<rparr>]) = [''July-undefined'']
   \<and> map label (weeklyHoursByGender idealOps [sampleRecord\<lparr>Sector := JStr []\<rparr>]) = [''Week 2-'']
   \<and> sessionsByArea [sampleRecord\<lparr>Sector := JUndefined\<rparr>] ''Unknown'' = Some 1
   \<and> sessionsByArea [sampleRecord\<lparr>Sector := JUndefined\<rparr>] ''undefined'' = None"
  by (simp add: weeklyHoursByGender_def monthlyHoursByGender_def hoursByGenderStep_def Let_def
      sessionsByArea_def sessionsByAreaStep_def orElse_def sampleRecord_def)

section \<open>Average hours\<close>










end
